theory Spec2Isabelle
  imports Main "HOL-Library.Char_ord" "HOL-Library.List_Lexorder"
begin

section \<open>Device-history route handlers\<close>

text \<open>
  The three route handlers \<^verbatim>\<open>GET\<close>, \<^verbatim>\<open>POST\<close> and \<^verbatim>\<open>DELETE\<close> of the device-history
  route are async functions that talk to a hosted backend through a query-builder client.
  The backend, the user-agent parser, the identifier generator and the clock are outside
  the repository; the handlers read them through an environment record, so that a
  handler is a function of the environment, the request and the contents of the two
  tables. A handler here is the async function handed to \<^verbatim>\<open>withAuth\<close>; the wrapper
  itself is not part of the sources. Writes to the console are left out.
\<close>

subsection \<open>Values thrown and returned\<close>

text \<open>
  A thrown or returned error object. Only its \<^verbatim>\<open>message\<close> property is ever read by
  the handlers (\<^verbatim>\<open>error.message || '...'\<close>); an absent message and the empty string
  are both falsy there, so the empty string stands for both.
\<close>

datatype exn = TypeError string | SyntaxError string | Failure string

fun message :: "exn \<Rightarrow> string" where
  "message (TypeError m) = m"
| "message (SyntaxError m) = m"
| "message (Failure m) = m"

text \<open>What awaiting a promise gives: a rejection is thrown at the \<^verbatim>\<open>await\<close>.\<close>

datatype 'a awaited = Rejected exn | Resolved 'a

text \<open>
  Reading \<^verbatim>\<open>user.id\<close> when \<^verbatim>\<open>user\<close> is \<^verbatim>\<open>null\<close> throws a TypeError; the message is
  the one of the V8 engine.
\<close>

definition null_id_error :: exn where
  "null_id_error =
     TypeError (''Cannot read properties of null (reading '' @ [CHR 0x27] @ ''id'' @ [CHR 0x27] @ '')'')"

text \<open>
  Destructuring \<^verbatim>\<open>const { deviceId } = null\<close> throws a TypeError as well, with a
  message of its own.
\<close>

definition destructure_null_error :: exn where
  "destructure_null_error =
     TypeError (''Cannot destructure property '' @ [CHR 0x27] @ ''deviceId'' @ [CHR 0x27]
       @ '' of '' @ [CHR 0x27] @ ''(intermediate value)'' @ [CHR 0x27] @ '' as it is null.'')"

subsection \<open>Data model\<close>

datatype user = User (uid: string)

text \<open>The object inserted into \<^verbatim>\<open>device_history\<close> (\<^verbatim>\<open>deviceInfo\<close>).\<close>

record device =
  user_id :: string
  device_id :: string
  device_name :: string
  browser :: "string option"
  os :: "string option"
  ip_address :: "string option"
  is_current :: bool
  last_active :: string

datatype log_type = new_device_added | device_removed

text \<open>The object inserted into \<^verbatim>\<open>security_logs\<close>; \<^verbatim>\<open>details\<close> is flattened.\<close>

record log_entry =
  log_user_id :: string
  log_type :: log_type
  details_device_id :: "string option"
  details_timestamp :: string
  log_ip_address :: "string option"

text \<open>
  The calls a handler issues through the query builder, one constructor per builder
  chain that occurs in the source.
\<close>

datatype call =
    SelectDevices string
  | ClearCurrent string
  | InsertDevice device
  | DeleteDevice string "string option"
  | InsertLog log_entry

text \<open>
  The two tables, and the calls issued so far (every call that reaches the backend is
  recorded, whether it succeeds or not).
\<close>

record world =
  device_history :: "device list"
  security_logs :: "log_entry list"
  calls :: "call list"

subsection \<open>The backend\<close>

text \<open>
  An awaited builder chain either rejects (the \<^verbatim>\<open>await\<close> throws), or resolves to an
  object with an \<^verbatim>\<open>error\<close> property (the source reads it as
  \<^verbatim>\<open>const { error } = await ...; if (error) throw error\<close>), or resolves without error
  after the backend has carried the call out. Which of the three happens is decided
  outside the handler, by a \<open>fault\<close> of the environment.
\<close>

datatype fault = NoFault | ReturnsError exn | Rejects exn

datatype reply = Reply (reply_error: "exn option") (reply_data: "device list")

text \<open>
  What the backend does with a call it carries out:
  \<^item> \<^verbatim>\<open>select('*').eq('user_id', u).order('last_active', {ascending: false})\<close> changes
    nothing;
  \<^item> \<^verbatim>\<open>update({is_current: false}).eq('user_id', u)\<close> clears the flag on the rows of \<open>u\<close>;
  \<^item> \<^verbatim>\<open>insert(row)\<close> appends the row;
  \<^item> \<^verbatim>\<open>delete().eq('user_id', u).eq('device_id', d)\<close> removes the rows matching both.
\<close>

fun effect :: "call \<Rightarrow> world \<Rightarrow> world" where
  "effect (SelectDevices u) w = w"
| "effect (ClearCurrent u) w =
     w\<lparr>device_history :=
         map (\<lambda>d. if user_id d = u then d\<lparr>is_current := False\<rparr> else d) (device_history w)\<rparr>"
| "effect (InsertDevice d) w = w\<lparr>device_history := device_history w @ [d]\<rparr>"
| "effect (DeleteDevice u i) w =
     w\<lparr>device_history :=
         filter (\<lambda>d. \<not> (user_id d = u \<and> Some (device_id d) = i)) (device_history w)\<rparr>"
| "effect (InsertLog l) w = w\<lparr>security_logs := security_logs w @ [l]\<rparr>"

text \<open>The rows a call returns: only the select returns any, most recent first.\<close>

fun rows :: "call \<Rightarrow> world \<Rightarrow> device list" where
  "rows (SelectDevices u) w =
     rev (sort_key last_active (filter (\<lambda>d. user_id d = u) (device_history w)))"
| "rows _ w = []"

definition run_call :: "fault \<Rightarrow> call \<Rightarrow> world \<Rightarrow> reply awaited \<times> world" where
  "run_call f c w =
     (let w1 = w\<lparr>calls := calls w @ [c]\<rparr> in
      case f of
        Rejects e \<Rightarrow> (Rejected e, w1)
      | ReturnsError e \<Rightarrow> (Resolved (Reply (Some e) []), w1)
      | NoFault \<Rightarrow> (Resolved (Reply None (rows c w)), effect c w1))"

subsection \<open>Requests, responses and the environment\<close>

text \<open>
  What \<^verbatim>\<open>req.json()\<close> gives: a rejection with a SyntaxError for a body that is not JSON,
  the value \<^verbatim>\<open>null\<close>, or a value whose \<^verbatim>\<open>deviceId\<close> property is read by the
  destructuring (\<open>None\<close> when the property is missing, as it is on every JSON value that
  is not an object).
\<close>

datatype json_body = Unparseable string | JsonNull | JsonValue "string option"

record request =
  user_agent :: "string option"
  x_forwarded_for :: "string option"
  x_real_ip :: "string option"
  json :: json_body

datatype body =
    DevicesBody "device list"
  | SuccessBody "string option"
  | ErrorBody string

record response =
  status :: nat
  body :: body

text \<open>The result of \<^verbatim>\<open>parser.getResult()\<close>, as far as it is read.\<close>

record ua_result =
  browser_name :: "string option"
  os_name :: "string option"

record env =
  getUser :: "user option awaited"
  UAParser :: "string option \<Rightarrow> ua_result"
  uuidv4 :: string
  date_first :: string
  date_second :: string
  select_fault :: fault
  clear_fault :: fault
  insert_fault :: fault
  delete_fault :: fault
  log_fault :: fault

text \<open>\<^verbatim>\<open>a || b\<close> on header values: \<^verbatim>\<open>null\<close> and the empty string are falsy.\<close>

definition or_else :: "string option \<Rightarrow> string option \<Rightarrow> string option" where
  "or_else a b = (case a of None \<Rightarrow> b | Some s \<Rightarrow> if s = [] then b else Some s)"

text \<open>A value interpolated into a template literal: \<^verbatim>\<open>undefined\<close> prints as its name.\<close>

definition interpolate :: "string option \<Rightarrow> string" where
  "interpolate v = (case v of None \<Rightarrow> ''undefined'' | Some s \<Rightarrow> s)"

text \<open>\<^verbatim>\<open>NextResponse.json(b)\<close> answers with status 200.\<close>

definition ok :: "body \<Rightarrow> response" where
  "ok b = \<lparr>status = 200, body = b\<rparr>"

text \<open>
  The \<^verbatim>\<open>catch\<close> block of each handler:
  \<^verbatim>\<open>NextResponse.json({ error: error.message || fallback }, { status: 500 })\<close>.
\<close>

definition caught :: "string \<Rightarrow> exn \<Rightarrow> response" where
  "caught fallback e =
     \<lparr>status = 500, body = ErrorBody (if message e = [] then fallback else message e)\<rparr>"

subsection \<open>GET\<close>

text \<open>The \<^verbatim>\<open>try\<close> block of \<^verbatim>\<open>GET\<close>; \<open>Inl\<close> is a value thrown inside it.\<close>

definition GET_try :: "env \<Rightarrow> user \<Rightarrow> world \<Rightarrow> (exn + response) \<times> world" where
  "GET_try E u w =
     (case run_call (select_fault E) (SelectDevices (uid u)) w of
        (Rejected e, w1) \<Rightarrow> (Inl e, w1)
      | (Resolved (Reply (Some e) devices), w1) \<Rightarrow> (Inl e, w1)
      | (Resolved (Reply None devices), w1) \<Rightarrow> (Inr (ok (DevicesBody devices)), w1))"

text \<open>
  The handler. \<open>Inl\<close> is an exception that leaves the handler: the user is resolved
  before the \<^verbatim>\<open>try\<close> block is entered.
\<close>

definition GET :: "env \<Rightarrow> request \<Rightarrow> world \<Rightarrow> (exn + response) \<times> world" where
  "GET E req w =
     (case getUser E of
        Rejected e \<Rightarrow> (Inl e, w)
      | Resolved None \<Rightarrow> (Inr \<lparr>status = 401, body = ErrorBody ''Unauthorized''\<rparr>, w)
      | Resolved (Some u) \<Rightarrow>
          (case GET_try E u w of
             (Inl e, w1) \<Rightarrow> (Inr (caught ''Failed to get device history'' e), w1)
           | (Inr r, w1) \<Rightarrow> (Inr r, w1)))"

subsection \<open>POST\<close>

definition deviceInfo :: "env \<Rightarrow> request \<Rightarrow> user \<Rightarrow> device" where
  "deviceInfo E req u =
     (let result = UAParser E (user_agent req) in
      \<lparr>user_id = uid u,
       device_id = uuidv4 E,
       device_name = interpolate (browser_name result) @ '' on '' @ interpolate (os_name result),
       browser = browser_name result,
       os = os_name result,
       ip_address = or_else (x_forwarded_for req) (x_real_ip req),
       is_current = True,
       last_active = date_first E\<rparr>)"

definition added_entry :: "env \<Rightarrow> request \<Rightarrow> user \<Rightarrow> log_entry" where
  "added_entry E req u =
     \<lparr>log_user_id = uid u,
      log_type = new_device_added,
      details_device_id = Some (uuidv4 E),
      details_timestamp = date_second E,
      log_ip_address = or_else (x_forwarded_for req) (x_real_ip req)\<rparr>"

text \<open>
  The \<^verbatim>\<open>try\<close> block of \<^verbatim>\<open>POST\<close>. The user is dereferenced first, while
  \<^verbatim>\<open>deviceInfo\<close> is built. The replies of the update and of the second insert are
  awaited and dropped; only the reply of the first insert is inspected.
\<close>

definition POST_try :: "env \<Rightarrow> request \<Rightarrow> user option \<Rightarrow> world \<Rightarrow> (exn + response) \<times> world" where
  "POST_try E req user w =
     (case user of
        None \<Rightarrow> (Inl null_id_error, w)
      | Some u \<Rightarrow>
          (case run_call (clear_fault E) (ClearCurrent (uid u)) w of
             (Rejected e, w1) \<Rightarrow> (Inl e, w1)
           | (Resolved r1, w1) \<Rightarrow>
               (case run_call (insert_fault E) (InsertDevice (deviceInfo E req u)) w1 of
                  (Rejected e, w2) \<Rightarrow> (Inl e, w2)
                | (Resolved (Reply (Some e) d2), w2) \<Rightarrow> (Inl e, w2)
                | (Resolved (Reply None d2), w2) \<Rightarrow>
                    (case run_call (log_fault E) (InsertLog (added_entry E req u)) w2 of
                       (Rejected e, w3) \<Rightarrow> (Inl e, w3)
                     | (Resolved r3, w3) \<Rightarrow>
                         (Inr (ok (SuccessBody (Some (uuidv4 E)))), w3)))))"

definition POST :: "env \<Rightarrow> request \<Rightarrow> world \<Rightarrow> (exn + response) \<times> world" where
  "POST E req w =
     (case getUser E of
        Rejected e \<Rightarrow> (Inl e, w)
      | Resolved user \<Rightarrow>
          (case POST_try E req user w of
             (Inl e, w1) \<Rightarrow> (Inr (caught ''Failed to add device'' e), w1)
           | (Inr r, w1) \<Rightarrow> (Inr r, w1)))"

subsection \<open>DELETE\<close>

definition removed_entry :: "env \<Rightarrow> request \<Rightarrow> user \<Rightarrow> string option \<Rightarrow> log_entry" where
  "removed_entry E req u deviceId =
     \<lparr>log_user_id = uid u,
      log_type = device_removed,
      details_device_id = deviceId,
      details_timestamp = date_first E,
      log_ip_address = or_else (x_forwarded_for req) (x_real_ip req)\<rparr>"

text \<open>
  The \<^verbatim>\<open>try\<close> block of \<^verbatim>\<open>DELETE\<close>. The body is read and destructured first; the
  user is dereferenced after that, while the delete is built. The reply of the delete is
  inspected, the reply of the insert into the log is dropped.
\<close>

definition DELETE_try :: "env \<Rightarrow> request \<Rightarrow> user option \<Rightarrow> world \<Rightarrow> (exn + response) \<times> world" where
  "DELETE_try E req user w =
     (case json req of
        Unparseable m \<Rightarrow> (Inl (SyntaxError m), w)
      | JsonNull \<Rightarrow> (Inl destructure_null_error, w)
      | JsonValue deviceId \<Rightarrow>
          (case user of
             None \<Rightarrow> (Inl null_id_error, w)
           | Some u \<Rightarrow>
               (case run_call (delete_fault E) (DeleteDevice (uid u) deviceId) w of
                  (Rejected e, w1) \<Rightarrow> (Inl e, w1)
                | (Resolved (Reply (Some e) d1), w1) \<Rightarrow> (Inl e, w1)
                | (Resolved (Reply None d1), w1) \<Rightarrow>
                    (case run_call (log_fault E) (InsertLog (removed_entry E req u deviceId)) w1 of
                       (Rejected e, w2) \<Rightarrow> (Inl e, w2)
                     | (Resolved r2, w2) \<Rightarrow> (Inr (ok (SuccessBody None)), w2)))))"

definition DELETE :: "env \<Rightarrow> request \<Rightarrow> world \<Rightarrow> (exn + response) \<times> world" where
  "DELETE E req w =
     (case getUser E of
        Rejected e \<Rightarrow> (Inl e, w)
      | Resolved user \<Rightarrow>
          (case DELETE_try E req user w of
             (Inl e, w1) \<Rightarrow> (Inr (caught ''Failed to remove device'' e), w1)
           | (Inr r, w1) \<Rightarrow> (Inr r, w1)))"


text \<open>A fault that makes the \<^verbatim>\<open>await\<close> throw.\<close>

fun rejects :: "fault \<Rightarrow> bool" where
  "rejects (Rejects e) = True"
| "rejects f = False"

section \<open>The error boundary\<close>

text \<open>
  The values a \<^verbatim>\<open>ReactNode\<close> can take, as far as the component tells them apart: the
  falsy ones, strings and numbers, host elements, an element of a wrapped component with
  its props, and an \<^verbatim>\<open>ErrorBoundary\<close> element with its \<^verbatim>\<open>fallback\<close> and its children.
  Numbers are integers here.
\<close>

datatype handler = HandleRetry

datatype ('c, 'p) node =
    JUndefined
  | JNull
  | JBool bool
  | JNumber int
  | JString string
  | Element string "(string \<times> string) list" "handler option" "('c, 'p) node list"
  | ComponentElement 'c 'p
  | BoundaryElement "('c, 'p) node" "('c, 'p) node"

text \<open>The truth value JavaScript gives a node in \<^verbatim>\<open>if (...)\<close>.\<close>

fun truthy :: "('c, 'p) node \<Rightarrow> bool" where
  "truthy JUndefined = False"
| "truthy JNull = False"
| "truthy (JBool b) = b"
| "truthy (JNumber n) = (n \<noteq> 0)"
| "truthy (JString s) = (s \<noteq> [])"
| "truthy (Element t a h cs) = True"
| "truthy (ComponentElement c p) = True"
| "truthy (BoundaryElement f c) = True"

text \<open>An omitted \<^verbatim>\<open>fallback\<close> prop reads as \<open>JUndefined\<close>.\<close>

record ('c, 'p) Props =
  children :: "('c, 'p) node"
  fallback :: "('c, 'p) node"

record State =
  hasError :: bool
  error :: "exn option"

definition initial_state :: State where
  "initial_state = \<lparr>hasError = False, error = None\<rparr>"

definition getDerivedStateFromError :: "exn \<Rightarrow> State" where
  "getDerivedStateFromError e = \<lparr>hasError = True, error = Some e\<rparr>"

text \<open>\<^verbatim>\<open>setState\<close> merges the object it is given into the state.\<close>

definition handleRetry :: "State \<Rightarrow> State" where
  "handleRetry s = s\<lparr>hasError := False, error := None\<rparr>"

text \<open>\<^verbatim>\<open>this.state.error?.message || 'An unexpected error occurred'\<close>\<close>

definition panel_message :: "State \<Rightarrow> string" where
  "panel_message s =
     (case error s of
        None \<Rightarrow> ''An unexpected error occurred''
      | Some e \<Rightarrow> if message e = [] then ''An unexpected error occurred'' else message e)"

definition default_panel :: "State \<Rightarrow> ('c, 'p) node" where
  "default_panel s =
     Element ''Alert'' [(''variant'', ''destructive''), (''className'', ''m-4'')] None
       [Element ''AlertTitle'' [] None [JString ''Something went wrong''],
        Element ''AlertDescription'' [(''className'', ''mt-2'')] None
          [Element ''p'' [(''className'', ''mb-4'')] None [JString (panel_message s)],
           Element ''Button''
             [(''variant'', ''outline''), (''className'', ''flex items-center space-x-2'')]
             (Some HandleRetry)
             [Element ''RefreshCw'' [(''className'', ''h-4 w-4'')] None [],
              Element ''span'' [] None [JString ''Try again'']]]]"

definition render :: "('c, 'p) Props \<Rightarrow> State \<Rightarrow> ('c, 'p) node" where
  "render P s =
     (if hasError s then
        (if truthy (fallback P) then fallback P else default_panel s)
      else children P)"

text \<open>
  One render pass of the boundary, as the framework drives a class component that
  declares \<^verbatim>\<open>getDerivedStateFromError\<close>: \<^verbatim>\<open>render\<close> is called; when it returned the
  children and a descendant throws \<open>e\<close> while they are rendered (\<open>thrown = Some e\<close>),
  the state returned by \<^verbatim>\<open>getDerivedStateFromError(e)\<close> is stored and \<^verbatim>\<open>render\<close> is
  called again. The children are not rendered while the state has \<^verbatim>\<open>hasError\<close>. The
  pass returns the new state and what the boundary shows. (\<^verbatim>\<open>componentDidCatch\<close> only
  logs.)
\<close>

definition render_pass ::
  "('c, 'p) Props \<Rightarrow> exn option \<Rightarrow> State \<Rightarrow> State \<times> ('c, 'p) node" where
  "render_pass P thrown s =
     (if hasError s then (s, render P s)
      else
        (case thrown of
           None \<Rightarrow> (s, render P s)
         | Some e \<Rightarrow> (getDerivedStateFromError e, render P (getDerivedStateFromError e))))"

text \<open>A click on the button of the default panel runs its \<^verbatim>\<open>onClick\<close> handler.\<close>

fun click :: "handler \<Rightarrow> State \<Rightarrow> State" where
  "click HandleRetry s = handleRetry s"

text \<open>
  \<^verbatim>\<open>withErrorBoundary(Component, fallback)\<close> returns the function component
  \<^verbatim>\<open>WithErrorBoundary\<close>; applied to props it returns an element tree.
\<close>

definition withErrorBoundary :: "'c \<Rightarrow> ('c, 'p) node \<Rightarrow> 'p \<Rightarrow> ('c, 'p) node" where
  "withErrorBoundary Component fb = (\<lambda>props. BoundaryElement fb (ComponentElement Component props))"

text \<open>The props an \<^verbatim>\<open>ErrorBoundary\<close> element hands to the component.\<close>

fun boundary_props :: "('c, 'p) node \<Rightarrow> ('c, 'p) Props option" where
  "boundary_props (BoundaryElement f c) = Some \<lparr>children = c, fallback = f\<rparr>"
| "boundary_props n = None"

section \<open>Concrete requests, environments and tables\<close>

definition alice :: user where
  "alice = User ''u1''"

definition env_ok :: env where
  "env_ok =
     \<lparr>getUser = Resolved (Some alice),
      UAParser = (\<lambda>ua. \<lparr>browser_name = Some ''Chrome'', os_name = Some ''Windows''\<rparr>),
      uuidv4 = ''d2'',
      date_first = ''2024-05-02T10:00:00.000Z'',
      date_second = ''2024-05-02T10:00:00.001Z'',
      select_fault = NoFault,
      clear_fault = NoFault,
      insert_fault = NoFault,
      delete_fault = NoFault,
      log_fault = NoFault\<rparr>"

definition env_anonymous :: env where
  "env_anonymous = env_ok\<lparr>getUser := Resolved None\<rparr>"

definition env_unreachable :: env where
  "env_unreachable = env_ok\<lparr>getUser := Rejected (Failure ''fetch failed'')\<rparr>"

definition env_clear_refused :: env where
  "env_clear_refused = env_ok\<lparr>clear_fault := ReturnsError (Failure ''permission denied'')\<rparr>"

definition env_insert_refused :: env where
  "env_insert_refused = env_ok\<lparr>insert_fault := ReturnsError (Failure ''duplicate key'')\<rparr>"

definition env_log_refused :: env where
  "env_log_refused = env_ok\<lparr>log_fault := ReturnsError (Failure ''permission denied'')\<rparr>"

definition env_no_agent :: env where
  "env_no_agent = env_ok\<lparr>UAParser := (\<lambda>ua. \<lparr>browser_name = None, os_name = None\<rparr>)\<rparr>"

definition req_plain :: request where
  "req_plain =
     \<lparr>user_agent = Some ''Mozilla/5.0'',
      x_forwarded_for = Some ''10.0.0.1'',
      x_real_ip = None,
      json = JsonValue (Some ''d1'')\<rparr>"

definition req_garbled :: request where
  "req_garbled = req_plain\<lparr>json := Unparseable ''Unexpected end of JSON input''\<rparr>"

definition req_no_agent :: request where
  "req_no_agent = req_plain\<lparr>user_agent := None\<rparr>"

definition old_device :: device where
  "old_device =
     \<lparr>user_id = ''u1'',
      device_id = ''d1'',
      device_name = ''Firefox on Linux'',
      browser = Some ''Firefox'',
      os = Some ''Linux'',
      ip_address = Some ''10.0.0.7'',
      is_current = True,
      last_active = ''2024-05-01T09:00:00.000Z''\<rparr>"

definition world_one :: world where
  "world_one = \<lparr>device_history = [old_device], security_logs = [], calls = []\<rparr>"


section \<open>Properties of the route handlers\<close>

lemma message_null_id: "message null_id_error \<noteq> []"
  by (simp add: null_id_error_def)

text \<open>
  Claim C7. A List request for which no user is resolved is answered with status 401 and
  a body holding an \<^verbatim>\<open>error\<close> field, and no call is issued to the backend: the tables
  and the list of calls are what they were.
\<close>

theorem list_unauthenticated:
  assumes "getUser E = Resolved None"
  shows "GET E req w = (Inr \<lparr>status = 401, body = ErrorBody ''Unauthorized''\<rparr>, w)
       \<and> calls (snd (GET E req w)) = calls w"
  using assms by (simp add: GET_def)

theorem list_unauthenticated_witness:
  "getUser env_anonymous = Resolved None
   \<and> GET env_anonymous req_plain world_one
       = (Inr \<lparr>status = 401, body = ErrorBody ''Unauthorized''\<rparr>, world_one)
   \<and> calls (snd (GET env_anonymous req_plain world_one)) = []"
proof -
  have h: "getUser env_anonymous = Resolved None"
    by (simp add: env_anonymous_def)
  show ?thesis
    using h list_unauthenticated [OF h, of req_plain world_one]
    by (simp add: world_one_def)
qed

text \<open>
  Claim C3, as the code has it. With no resolved user, Register always reads \<^verbatim>\<open>user.id\<close>
  of the absent user: its \<^verbatim>\<open>try\<close> block throws the TypeError of that read, and the
  \<^verbatim>\<open>catch\<close> block answers with status 500 carrying the TypeError's message, not with
  401. Remove reads the request body first: it reaches the read of \<^verbatim>\<open>user.id\<close> only
  when the body parses to a value that is not \<^verbatim>\<open>null\<close>, and then answers in the same
  way; on a body that is not JSON, or is \<^verbatim>\<open>null\<close>, the error of reading the body is
  thrown instead and the user is never touched. In every case the answer of Remove has
  status 500 and an error body, and neither handler issues a call to the backend.
\<close>

theorem unauthenticated_register_remove:
  assumes "getUser E = Resolved None"
  shows "POST_try E req None w = (Inl null_id_error, w)
       \<and> POST E req w = (Inr \<lparr>status = 500, body = ErrorBody (message null_id_error)\<rparr>, w)
       \<and> DELETE_try E req None w =
           (case json req of
              JsonValue d \<Rightarrow> (Inl null_id_error, w)
            | JsonNull \<Rightarrow> (Inl destructure_null_error, w)
            | Unparseable m \<Rightarrow> (Inl (SyntaxError m), w))
       \<and> DELETE E req w =
           (case json req of
              JsonValue d \<Rightarrow> (Inr \<lparr>status = 500, body = ErrorBody (message null_id_error)\<rparr>, w)
            | JsonNull \<Rightarrow> (Inr (caught ''Failed to remove device'' destructure_null_error), w)
            | Unparseable m \<Rightarrow> (Inr (caught ''Failed to remove device'' (SyntaxError m)), w))
       \<and> (\<exists>b. fst (DELETE E req w) = Inr \<lparr>status = 500, body = ErrorBody b\<rparr>)"
  using assms message_null_id
  by (auto simp: POST_def POST_try_def DELETE_def DELETE_try_def caught_def split: json_body.splits)

theorem unauthenticated_register_remove_witness:
  "getUser env_anonymous = Resolved None
   \<and> POST env_anonymous req_plain world_one
       = (Inr \<lparr>status = 500, body = ErrorBody (message null_id_error)\<rparr>, world_one)
   \<and> DELETE env_anonymous req_plain world_one
       = (Inr \<lparr>status = 500, body = ErrorBody (message null_id_error)\<rparr>, world_one)"
proof -
  have h: "getUser env_anonymous = Resolved None"
    by (simp add: env_anonymous_def)
  show ?thesis
    using h unauthenticated_register_remove [OF h, of req_plain world_one]
    by (simp add: req_plain_def)
qed

text \<open>
  Claim C3 as it is stated fails on a Remove call with no resolved user whose body is not
  JSON: the \<^verbatim>\<open>try\<close> block throws the SyntaxError of \<^verbatim>\<open>req.json()\<close>, which is not the
  TypeError of reading \<^verbatim>\<open>user.id\<close>, and the answer carries the SyntaxError's message.
\<close>

theorem remove_garbled_body_never_reads_user:
  "getUser env_anonymous = Resolved None
   \<and> DELETE_try env_anonymous req_garbled None world_one
       = (Inl (SyntaxError ''Unexpected end of JSON input''), world_one)
   \<and> SyntaxError ''Unexpected end of JSON input'' \<noteq> null_id_error
   \<and> DELETE env_anonymous req_garbled world_one
       = (Inr \<lparr>status = 500, body = ErrorBody ''Unexpected end of JSON input''\<rparr>, world_one)"
  by (simp add: env_anonymous_def req_garbled_def DELETE_def DELETE_try_def caught_def
      null_id_error_def)

text \<open>
  Claim C4, as the code has it. Once the user lookup has resolved (to a user or to none),
  each of the three handlers returns a response and lets no exception out; a value
  thrown inside the \<^verbatim>\<open>try\<close> block of a handler is answered with status 500 and a body
  whose \<^verbatim>\<open>error\<close> field is the thrown value's message, or the handler's fallback string
  when the message is empty. A request body that is not JSON is one such case.
\<close>

theorem failures_inside_try_are_caught:
  assumes "getUser E = Resolved user"
  shows "(\<exists>r. fst (GET E req w) = Inr r)
       \<and> (\<exists>r. fst (POST E req w) = Inr r)
       \<and> (\<exists>r. fst (DELETE E req w) = Inr r)
       \<and> (\<forall>u e w1. user = Some u \<and> GET_try E u w = (Inl e, w1) \<longrightarrow>
             GET E req w =
               (Inr \<lparr>status = 500, body = ErrorBody
                  (if message e = [] then ''Failed to get device history'' else message e)\<rparr>, w1))
       \<and> (\<forall>e w1. POST_try E req user w = (Inl e, w1) \<longrightarrow>
             POST E req w =
               (Inr \<lparr>status = 500, body = ErrorBody
                  (if message e = [] then ''Failed to add device'' else message e)\<rparr>, w1))
       \<and> (\<forall>e w1. DELETE_try E req user w = (Inl e, w1) \<longrightarrow>
             DELETE E req w =
               (Inr \<lparr>status = 500, body = ErrorBody
                  (if message e = [] then ''Failed to remove device'' else message e)\<rparr>, w1))
       \<and> (\<forall>m. json req = Unparseable m \<longrightarrow>
             DELETE E req w =
               (Inr \<lparr>status = 500, body = ErrorBody
                  (if m = [] then ''Failed to remove device'' else m)\<rparr>, w))"
proof -
  have g: "\<exists>r. fst (GET E req w) = Inr r"
  proof (cases user)
    case None
    with assms show ?thesis by (simp add: GET_def)
  next
    case (Some u)
    obtain x w1 where t: "GET_try E u w = (x, w1)" by (cases "GET_try E u w")
    with assms Some show ?thesis by (cases x) (simp_all add: GET_def)
  qed
  have p: "\<exists>r. fst (POST E req w) = Inr r"
  proof -
    obtain x w1 where t: "POST_try E req user w = (x, w1)" by (cases "POST_try E req user w")
    with assms show ?thesis by (cases x) (simp_all add: POST_def)
  qed
  have d: "\<exists>r. fst (DELETE E req w) = Inr r"
  proof -
    obtain x w1 where t: "DELETE_try E req user w = (x, w1)" by (cases "DELETE_try E req user w")
    with assms show ?thesis by (cases x) (simp_all add: DELETE_def)
  qed
  have g': "\<forall>u e w1. user = Some u \<and> GET_try E u w = (Inl e, w1) \<longrightarrow>
             GET E req w =
               (Inr \<lparr>status = 500, body = ErrorBody
                  (if message e = [] then ''Failed to get device history'' else message e)\<rparr>, w1)"
    using assms by (simp add: GET_def caught_def)
  have p': "\<forall>e w1. POST_try E req user w = (Inl e, w1) \<longrightarrow>
             POST E req w =
               (Inr \<lparr>status = 500, body = ErrorBody
                  (if message e = [] then ''Failed to add device'' else message e)\<rparr>, w1)"
    using assms by (simp add: POST_def caught_def)
  have d': "\<forall>e w1. DELETE_try E req user w = (Inl e, w1) \<longrightarrow>
             DELETE E req w =
               (Inr \<lparr>status = 500, body = ErrorBody
                  (if message e = [] then ''Failed to remove device'' else message e)\<rparr>, w1)"
    using assms by (simp add: DELETE_def caught_def)
  have m: "\<forall>m. json req = Unparseable m \<longrightarrow>
             DELETE E req w =
               (Inr \<lparr>status = 500, body = ErrorBody
                  (if m = [] then ''Failed to remove device'' else m)\<rparr>, w)"
    using assms by (simp add: DELETE_def DELETE_try_def caught_def)
  from g p d g' p' d' m show ?thesis by blast
qed

theorem failures_inside_try_are_caught_witness:
  "getUser env_insert_refused = Resolved (Some alice)
   \<and> fst (POST_try env_insert_refused req_plain (Some alice) world_one) = Inl (Failure ''duplicate key'')
   \<and> fst (POST env_insert_refused req_plain world_one)
       = Inr \<lparr>status = 500, body = ErrorBody ''duplicate key''\<rparr>
   \<and> json req_garbled = Unparseable ''Unexpected end of JSON input''
   \<and> DELETE env_insert_refused req_garbled world_one
       = (Inr \<lparr>status = 500, body = ErrorBody ''Unexpected end of JSON input''\<rparr>, world_one)"
proof -
  have h: "getUser env_insert_refused = Resolved (Some alice)"
    by (simp add: env_insert_refused_def env_ok_def)
  have t1: "fst (POST_try env_insert_refused req_plain (Some alice) world_one)
      = Inl (Failure ''duplicate key'')"
    by (simp add: POST_try_def run_call_def env_insert_refused_def env_ok_def)
  then have t: "POST_try env_insert_refused req_plain (Some alice) world_one
      = (Inl (Failure ''duplicate key''),
         snd (POST_try env_insert_refused req_plain (Some alice) world_one))"
    by (simp add: prod_eq_iff)
  have j: "json req_garbled = Unparseable ''Unexpected end of JSON input''"
    by (simp add: req_garbled_def)
  from failures_inside_try_are_caught [OF h, of req_plain world_one] t
  have a: "fst (POST env_insert_refused req_plain world_one)
       = Inr \<lparr>status = 500, body = ErrorBody ''duplicate key''\<rparr>"
    by simp
  from failures_inside_try_are_caught [OF h, of req_garbled world_one] j
  have b: "DELETE env_insert_refused req_garbled world_one
       = (Inr \<lparr>status = 500, body = ErrorBody ''Unexpected end of JSON input''\<rparr>, world_one)"
    by simp
  from h t1 j a b show ?thesis by simp
qed

text \<open>
  Claim C4 as it is stated fails when the user lookup itself rejects: in all three
  handlers \<^verbatim>\<open>await supabase.auth.getUser()\<close> stands before the \<^verbatim>\<open>try\<close> block, so the
  rejection leaves the handler and no response is produced.
\<close>

theorem rejected_user_lookup_escapes:
  "GET env_unreachable req_plain world_one = (Inl (Failure ''fetch failed''), world_one)
   \<and> POST env_unreachable req_plain world_one = (Inl (Failure ''fetch failed''), world_one)
   \<and> DELETE env_unreachable req_plain world_one = (Inl (Failure ''fetch failed''), world_one)"
  by (simp add: GET_def POST_def DELETE_def env_unreachable_def)


subsection \<open>Register and the replies it drops\<close>

lemma run_call_NoFault:
  "run_call NoFault c w =
     (Resolved (Reply None (rows c w)), effect c (w\<lparr>calls := calls w @ [c]\<rparr>))"
  by (simp add: run_call_def)

text \<open>
  What a Register call does when the insert of the device row is carried out and no
  \<^verbatim>\<open>await\<close> throws: it answers with success whatever the replies of the update and of
  the insert into the log were. The flags of the user's older rows are cleared exactly
  when the update was carried out, and the log grows exactly when its insert was.
\<close>

lemma register_carried_out:
  assumes "getUser E = Resolved (Some u)"
    and "\<not> rejects (clear_fault E)" and "insert_fault E = NoFault" and "\<not> rejects (log_fault E)"
  shows "fst (POST E req w) = Inr (ok (SuccessBody (Some (uuidv4 E))))
       \<and> device_history (snd (POST E req w)) =
           (case clear_fault E of
              NoFault \<Rightarrow>
                map (\<lambda>d. if user_id d = uid u then d\<lparr>is_current := False\<rparr> else d) (device_history w)
            | _ \<Rightarrow> device_history w) @ [deviceInfo E req u]
       \<and> security_logs (snd (POST E req w)) =
           (case log_fault E of
              NoFault \<Rightarrow> security_logs w @ [added_entry E req u]
            | _ \<Rightarrow> security_logs w)"
  using assms
  by (cases "clear_fault E"; cases "log_fault E")
     (simp_all add: POST_def POST_try_def run_call_def)

text \<open>
  When every step is carried out, the new row is the only current one of its user, and
  one log entry naming the returned identifier is added.
\<close>

lemma cleared_rows_not_current:
  "[d \<leftarrow> map (\<lambda>d. if user_id d = u then d\<lparr>is_current := False\<rparr> else d) ds.
      user_id d = u \<and> is_current d] = []"
  by (induction ds) simp_all

lemma register_all_steps_carried_out:
  assumes "getUser E = Resolved (Some u)"
    and "clear_fault E = NoFault" and "insert_fault E = NoFault" and "log_fault E = NoFault"
  shows "fst (POST E req w) = Inr (ok (SuccessBody (Some (uuidv4 E))))
       \<and> [d \<leftarrow> device_history (snd (POST E req w)). user_id d = uid u \<and> is_current d]
           = [deviceInfo E req u]
       \<and> security_logs (snd (POST E req w)) = security_logs w @ [added_entry E req u]
       \<and> log_type (added_entry E req u) = new_device_added
       \<and> details_device_id (added_entry E req u) = Some (uuidv4 E)"
proof -
  have r: "\<not> rejects (clear_fault E)" "\<not> rejects (log_fault E)"
    using assms by simp_all
  have n: "user_id (deviceInfo E req u) = uid u" "is_current (deviceInfo E req u)"
    by (simp_all add: deviceInfo_def Let_def)
  from register_carried_out [OF assms(1) r(1) assms(3) r(2), of req w] assms(2,4) n
  show ?thesis
    by (simp add: cleared_rows_not_current added_entry_def)
qed

text \<open>
  An error in the reply of the device insert is thrown: the log is not written and the
  answer has status 500.
\<close>

lemma register_stops_at_refused_insert:
  assumes "getUser E = Resolved (Some u)"
    and "\<not> rejects (clear_fault E)" and "insert_fault E = ReturnsError e"
  shows "fst (POST E req w) = Inr (caught ''Failed to add device'' e)
       \<and> calls (snd (POST E req w)) =
           calls w @ [ClearCurrent (uid u), InsertDevice (deviceInfo E req u)]
       \<and> security_logs (snd (POST E req w)) = security_logs w"
  using assms
  by (cases "clear_fault E") (simp_all add: POST_def POST_try_def run_call_def)

text \<open>
  Claim C1 says that after every successful Register call the new row is current and
  every other row of the user is not. The handler awaits the update that clears the
  flags and drops its reply, so an update the backend refuses goes unnoticed: here the
  user \<open>u1\<close> has the current device \<open>d1\<close>, the update returns an error, the two inserts
  are carried out, the answer is the success response, and both \<open>d1\<close> and the new \<open>d2\<close>
  are current afterwards.
\<close>

theorem register_after_refused_update:
  "fst (POST env_clear_refused req_plain world_one)
     = Inr \<lparr>status = 200, body = SuccessBody (Some ''d2'')\<rparr>
   \<and> map (\<lambda>d. (user_id d, device_id d, is_current d))
        (device_history (snd (POST env_clear_refused req_plain world_one)))
     = [(''u1'', ''d1'', True), (''u1'', ''d2'', True)]"
  by (simp add: POST_def POST_try_def run_call_def env_clear_refused_def env_ok_def world_one_def
      old_device_def deviceInfo_def alice_def ok_def)

text \<open>
  Claim C2 says that a failure of any of the three persistence steps stops the remaining
  steps and is answered with status 500. On the same input as above the first step
  fails, and the handler goes on to issue both inserts and answers with status 200.
\<close>

theorem register_continues_after_refused_update:
  "fst (POST env_clear_refused req_plain world_one)
     = Inr \<lparr>status = 200, body = SuccessBody (Some ''d2'')\<rparr>
   \<and> calls (snd (POST env_clear_refused req_plain world_one))
     = [ClearCurrent ''u1'',
        InsertDevice (deviceInfo env_clear_refused req_plain alice),
        InsertLog (added_entry env_clear_refused req_plain alice)]"
  by (simp add: POST_def POST_try_def run_call_def env_clear_refused_def env_ok_def world_one_def
      alice_def ok_def)

text \<open>
  Claim C5 says that every Register call that returns success has created exactly one
  \<open>new_device_added\<close> entry. The reply of the insert into the log is dropped as well:
  here that insert returns an error, the answer is still the success response with the
  new identifier, and the log is empty afterwards.
\<close>

theorem register_success_without_audit_entry:
  "fst (POST env_log_refused req_plain world_one)
     = Inr \<lparr>status = 200, body = SuccessBody (Some ''d2'')\<rparr>
   \<and> security_logs (snd (POST env_log_refused req_plain world_one)) = []"
  by (simp add: POST_def POST_try_def run_call_def env_log_refused_def env_ok_def world_one_def
      alice_def ok_def)

subsection \<open>Register without a user agent\<close>

text \<open>
  Claim C9. When the parser finds neither a browser name nor an OS name, a Register call
  of a resolved user whose device insert is carried out (and none of whose awaits
  throws) answers with success, and the row it stores, the last of the table, has the
  device name \<open>undefined on undefined\<close>.
\<close>

theorem register_without_agent:
  assumes "getUser E = Resolved (Some u)"
    and "UAParser E (user_agent req) = \<lparr>browser_name = None, os_name = None\<rparr>"
    and "\<not> rejects (clear_fault E)" and "insert_fault E = NoFault" and "\<not> rejects (log_fault E)"
  shows "fst (POST E req w) = Inr \<lparr>status = 200, body = SuccessBody (Some (uuidv4 E))\<rparr>
       \<and> device_history (snd (POST E req w)) \<noteq> []
       \<and> last (device_history (snd (POST E req w))) = deviceInfo E req u
       \<and> device_name (deviceInfo E req u) = ''undefined on undefined''"
proof -
  have n: "device_name (deviceInfo E req u) = ''undefined on undefined''"
    using assms(2) by (simp add: deviceInfo_def interpolate_def)
  from register_carried_out [OF assms(1,3,4,5), of req w] n show ?thesis
    by (simp add: ok_def)
qed

theorem register_without_agent_witness:
  "getUser env_no_agent = Resolved (Some alice)
   \<and> UAParser env_no_agent (user_agent req_no_agent) = \<lparr>browser_name = None, os_name = None\<rparr>
   \<and> \<not> rejects (clear_fault env_no_agent) \<and> insert_fault env_no_agent = NoFault
   \<and> \<not> rejects (log_fault env_no_agent)
   \<and> fst (POST env_no_agent req_no_agent world_one)
       = Inr \<lparr>status = 200, body = SuccessBody (Some ''d2'')\<rparr>
   \<and> device_name (last (device_history (snd (POST env_no_agent req_no_agent world_one))))
       = ''undefined on undefined''"
proof -
  have h: "getUser env_no_agent = Resolved (Some alice)"
    "UAParser env_no_agent (user_agent req_no_agent) = \<lparr>browser_name = None, os_name = None\<rparr>"
    "\<not> rejects (clear_fault env_no_agent)" "insert_fault env_no_agent = NoFault"
    "\<not> rejects (log_fault env_no_agent)"
    by (simp_all add: env_no_agent_def env_ok_def)
  have i: "uuidv4 env_no_agent = ''d2''"
    by (simp add: env_no_agent_def env_ok_def)
  from register_without_agent [OF h, of world_one] h i show ?thesis
    by simp
qed

subsection \<open>Remove twice\<close>

lemma remove_carried_out:
  assumes "getUser E = Resolved (Some u)" and "json req = JsonValue i"
    and "delete_fault E = NoFault" and "log_fault E = NoFault"
  shows "DELETE E req w =
     (Inr (ok (SuccessBody None)),
      w\<lparr>device_history :=
          filter (\<lambda>d. \<not> (user_id d = uid u \<and> Some (device_id d) = i)) (device_history w),
        security_logs := security_logs w @ [removed_entry E req u i],
        calls := calls w @ [DeleteDevice (uid u) i, InsertLog (removed_entry E req u i)]\<rparr>)"
  using assms by (simp add: DELETE_def DELETE_try_def run_call_NoFault)

text \<open>
  Claim C6. Two Remove calls in succession by the same resolved user for the same
  device identifier \<open>i\<close>, both carried out by the backend, whatever the table held
  before: both answer with success; after the first call no row of the user has the
  identifier, so the second delete removes nothing and leaves the table as it was; and
  the log has grown by exactly two \<open>device_removed\<close> entries naming \<open>i\<close>, one per call.
\<close>

theorem remove_twice:
  assumes "getUser E1 = Resolved (Some u)" and "getUser E2 = Resolved (Some u)"
    and "json req1 = JsonValue (Some i)" and "json req2 = JsonValue (Some i)"
    and "delete_fault E1 = NoFault" and "log_fault E1 = NoFault"
    and "delete_fault E2 = NoFault" and "log_fault E2 = NoFault"
  shows "(let w1 = snd (DELETE E1 req1 w); w2 = snd (DELETE E2 req2 w1) in
          fst (DELETE E1 req1 w) = Inr \<lparr>status = 200, body = SuccessBody None\<rparr>
        \<and> fst (DELETE E2 req2 w1) = Inr \<lparr>status = 200, body = SuccessBody None\<rparr>
        \<and> filter (\<lambda>d. user_id d = uid u \<and> device_id d = i) (device_history w1) = []
        \<and> device_history w2 = device_history w1
        \<and> security_logs w2 =
            security_logs w @ [removed_entry E1 req1 u (Some i), removed_entry E2 req2 u (Some i)]
        \<and> log_type (removed_entry E1 req1 u (Some i)) = device_removed
        \<and> log_type (removed_entry E2 req2 u (Some i)) = device_removed
        \<and> details_device_id (removed_entry E1 req1 u (Some i)) = Some i
        \<and> details_device_id (removed_entry E2 req2 u (Some i)) = Some i)"
proof -
  have 1: "DELETE E1 req1 w = (Inr (ok (SuccessBody None)),
      w\<lparr>device_history :=
          filter (\<lambda>d. \<not> (user_id d = uid u \<and> Some (device_id d) = Some i)) (device_history w),
        security_logs := security_logs w @ [removed_entry E1 req1 u (Some i)],
        calls := calls w @
          [DeleteDevice (uid u) (Some i), InsertLog (removed_entry E1 req1 u (Some i))]\<rparr>)"
    using assms by (intro remove_carried_out)
  show ?thesis
    unfolding Let_def 1 snd_conv fst_conv
    using assms(2,4,7,8)
    by (simp add: remove_carried_out ok_def removed_entry_def filter_empty_conv)
qed


theorem remove_twice_witness:
  "getUser env_ok = Resolved (Some alice)
   \<and> json req_plain = JsonValue (Some ''d1'')
   \<and> delete_fault env_ok = NoFault \<and> log_fault env_ok = NoFault
   \<and> device_history world_one = [old_device]
   \<and> fst (DELETE env_ok req_plain world_one) = Inr \<lparr>status = 200, body = SuccessBody None\<rparr>
   \<and> fst (DELETE env_ok req_plain (snd (DELETE env_ok req_plain world_one)))
       = Inr \<lparr>status = 200, body = SuccessBody None\<rparr>
   \<and> device_history (snd (DELETE env_ok req_plain (snd (DELETE env_ok req_plain world_one))))
       = device_history (snd (DELETE env_ok req_plain world_one))
   \<and> security_logs (snd (DELETE env_ok req_plain (snd (DELETE env_ok req_plain world_one))))
       = [removed_entry env_ok req_plain alice (Some ''d1''),
          removed_entry env_ok req_plain alice (Some ''d1'')]"
proof -
  have h: "getUser env_ok = Resolved (Some alice)" "json req_plain = JsonValue (Some ''d1'')"
    "delete_fault env_ok = NoFault" "log_fault env_ok = NoFault"
    by (simp_all add: env_ok_def req_plain_def)
  have w: "device_history world_one = [old_device]" "security_logs world_one = []"
    by (simp_all add: world_one_def)
  from remove_twice [OF h(1) h(1) h(2) h(2) h(3) h(4) h(3) h(4), of world_one] h w
  show ?thesis
    by (simp add: Let_def)
qed

section \<open>Properties of the error boundary\<close>

text \<open>
  Claim C8, as the code has it. The boundary has two states. In the normal state it
  renders its children. When a descendant throws \<open>e\<close> during a render pass, the state
  becomes the errored one holding \<open>e\<close>, and the pass shows the \<^verbatim>\<open>fallback\<close> prop when it
  is truthy and the default panel otherwise; the pass returns a node, so nothing is
  thrown further. Later passes leave the errored state as it is. A click on the retry
  button gives the normal state with no stored error, and the next pass renders the
  children again: it shows them when they render, and is errored again when they throw.
\<close>

theorem boundary_two_states:
  "render P initial_state = children P
   \<and> render_pass P None initial_state = (initial_state, children P)
   \<and> render_pass P (Some e) initial_state =
       (\<lparr>hasError = True, error = Some e\<rparr>,
        if truthy (fallback P) then fallback P
        else default_panel \<lparr>hasError = True, error = Some e\<rparr>)
   \<and> render_pass P thrown \<lparr>hasError = True, error = Some e\<rparr> =
       (\<lparr>hasError = True, error = Some e\<rparr>,
        if truthy (fallback P) then fallback P
        else default_panel \<lparr>hasError = True, error = Some e\<rparr>)
   \<and> click HandleRetry s = initial_state
   \<and> render_pass P None (click HandleRetry s) = (initial_state, children P)
   \<and> render_pass P (Some e') (click HandleRetry s) =
       (\<lparr>hasError = True, error = Some e'\<rparr>,
        if truthy (fallback P) then fallback P
        else default_panel \<lparr>hasError = True, error = Some e'\<rparr>)"
  by (simp add: render_def render_pass_def initial_state_def getDerivedStateFromError_def
      handleRetry_def)

text \<open>
  Claim C8 as it is stated fails for a fallback that is supplied but falsy: with
  \<^verbatim>\<open>fallback={0}\<close> the errored boundary shows the default panel, not the fallback.
\<close>

theorem falsy_fallback_is_not_rendered:
  "render \<lparr>children = JString ''page'', fallback = JNumber 0\<rparr>
       (getDerivedStateFromError (Failure ''boom''))
     = (default_panel (getDerivedStateFromError (Failure ''boom'')) :: (unit, unit) node)
   \<and> render \<lparr>children = JString ''page'', fallback = JNumber 0\<rparr>
       (getDerivedStateFromError (Failure ''boom'')) \<noteq> (JNumber 0 :: (unit, unit) node)
   \<and> (JNumber 0 :: (unit, unit) node) \<noteq> JUndefined"
  by (simp add: render_def getDerivedStateFromError_def default_panel_def)

text \<open>
  Claim C10. For every component, fallback and props, the wrapper returns an
  \<^verbatim>\<open>ErrorBoundary\<close> element whose \<^verbatim>\<open>fallback\<close> is the given one and whose only child is the
  element of the component with the very props the wrapper received; in its normal state
  the boundary renders that element.
\<close>

theorem with_error_boundary_passes_props:
  "withErrorBoundary C fb props = BoundaryElement fb (ComponentElement C props)
   \<and> boundary_props (withErrorBoundary C fb props)
       = Some \<lparr>children = ComponentElement C props, fallback = fb\<rparr>
   \<and> render \<lparr>children = ComponentElement C props, fallback = fb\<rparr> initial_state
       = ComponentElement C props"
  by (simp add: withErrorBoundary_def render_def initial_state_def)

end
